theory Spec2Isabelle
  imports Complex_Main
begin

section \<open>The visualization adapter of the chat view\<close>

text \<open>
  This theory embeds \<^verbatim>\<open>src/components/chat/Visualization.tsx\<close>: the React component
  \<^verbatim>\<open>Visualization\<close>, its inner functions \<^verbatim>\<open>prepareChartData\<close> and \<^verbatim>\<open>renderChart\<close>, and
  the constants they close over.  The component is a pure function of its \<^verbatim>\<open>data\<close> prop;
  what it returns is a tree of chart elements, modelled here as a datatype that keeps the
  props computed from the input (data, data keys, colours, axis labels, legend, bar gap)
  and leaves out the constant styling props (grid, tooltip, radii, font sizes).
\<close>

subsection \<open>JavaScript values\<close>

text \<open>
  Numbers of the payload are only passed through and tested for truthiness, never computed
  with, so they are carried as reals.  Strings are byte strings; a character outside ASCII
  is written as its UTF-8 bytes.
\<close>

datatype jsval =
    Undefined
  | Null
  | JBool bool
  | Num real
  | Str string
  | Arr "jsval list"
  | Obj "(string \<times> jsval) list"

text \<open>An exception thrown by the JavaScript runtime.\<close>

datatype js_error = TypeError

text \<open>\<^verbatim>\<open>!!v\<close>: the values that count as true in a condition, \<^verbatim>\<open>||\<close> or \<^verbatim>\<open>&&\<close>.\<close>

fun truthy :: "jsval \<Rightarrow> bool" where
  "truthy Undefined = False"
| "truthy Null = False"
| "truthy (JBool b) = b"
| "truthy (Num n) = (n \<noteq> 0)"
| "truthy (Str s) = (s \<noteq> [])"
| "truthy (Arr _) = True"
| "truthy (Obj _) = True"

text \<open>\<^verbatim>\<open>xs[i]\<close> on an array: reading past the end yields \<^verbatim>\<open>undefined\<close>, here \<open>None\<close>.\<close>

definition at_index :: "'a list \<Rightarrow> nat \<Rightarrow> 'a option" where
  "at_index xs i = (if i < length xs then Some (xs ! i) else None)"

definition num_at :: "real list \<Rightarrow> nat \<Rightarrow> jsval" where
  "num_at xs i = (case at_index xs i of Some v \<Rightarrow> Num v | None \<Rightarrow> Undefined)"

definition str_at :: "string list \<Rightarrow> nat \<Rightarrow> jsval" where
  "str_at xs i = (case at_index xs i of Some s \<Rightarrow> Str s | None \<Rightarrow> Undefined)"

text \<open>
  \<^verbatim>\<open>xs[i % xs.length]\<close> on an array of strings.  For the empty array the remainder
  \<^verbatim>\<open>i % 0\<close> is \<^verbatim>\<open>NaN\<close>, and \<^verbatim>\<open>xs[NaN]\<close> is \<^verbatim>\<open>undefined\<close>.
\<close>

definition str_at_mod :: "string list \<Rightarrow> nat \<Rightarrow> jsval" where
  "str_at_mod xs i = (if length xs = 0 then Undefined else str_at xs (i mod length xs))"

text \<open>A non-negative integer printed in decimal, as a template literal prints it.\<close>

definition digit_char :: "nat \<Rightarrow> char" where
  "digit_char n = ''0123456789'' ! n"

fun string_of_nat :: "nat \<Rightarrow> string" where
  "string_of_nat n =
     (if n < 10 then [digit_char n] else string_of_nat (n div 10) @ [digit_char (n mod 10)])"

declare string_of_nat.simps [simp del]

subsection \<open>The input: \<^verbatim>\<open>VisualizationData\<close>\<close>

text \<open>
  \<^verbatim>\<open>labels: string[] | number[]\<close>: the code asks each label for its type, so a label is
  a string or a number.
\<close>

datatype label = StrLabel string | NumLabel real

fun label_val :: "label \<Rightarrow> jsval" where
  "label_val (StrLabel s) = Str s"
| "label_val (NumLabel n) = Num n"

text \<open>
  \<^verbatim>\<open>values: number[] | number[][]\<close>.  The code never sees which side of the union it was
  given; it looks at \<^verbatim>\<open>values[0]\<close>.  The empty array is both \<open>Flat []\<close> and \<open>Nested []\<close>,
  and every function below treats the two alike.  An array that mixes numbers and arrays
  is outside the declared type and is not modelled.
\<close>

datatype series_values = Flat "real list" | Nested "real list list"

text \<open>
  \<^verbatim>\<open>extra\<close> and each of its fields are optional.  The fields typed \<^verbatim>\<open>any\<close> are arbitrary
  values, \<open>Undefined\<close> when missing.
\<close>

record VisualizationExtra =
  title :: "string option"
  xLabel :: "string option"
  yLabel :: "string option"
  colors :: "string list option"
  quartis :: jsval
  ranges :: jsval
  legendas :: "string list option"

text \<open>
  The interface declares \<^verbatim>\<open>labels\<close> and \<^verbatim>\<open>values\<close> as required and \<^verbatim>\<open>type\<close> as one of seven
  literals, but the payload is unchecked JSON and the code itself tests for a missing
  \<^verbatim>\<open>data\<close>, \<^verbatim>\<open>labels\<close> and \<^verbatim>\<open>values\<close> and has a \<^verbatim>\<open>default\<close> branch for other types.  So the
  two fields are optional here and \<^verbatim>\<open>type\<close> is any string.  (The field \<^verbatim>\<open>values\<close> is
  written \<open>values'\<close>.)
\<close>

record VisualizationData =
  type :: string
  labels :: "label list option"
  values' :: "series_values option"
  extra :: "VisualizationExtra option"

text \<open>A property of \<^verbatim>\<open>data.extra\<close> read through optional chaining, \<^verbatim>\<open>data.extra?.f\<close>.\<close>

definition extra_field :: "VisualizationData \<Rightarrow> (VisualizationExtra \<Rightarrow> 'a option) \<Rightarrow> 'a option" where
  "extra_field d f = (case extra d of None \<Rightarrow> None | Some e \<Rightarrow> f e)"

definition extra_any :: "VisualizationData \<Rightarrow> (VisualizationExtra \<Rightarrow> jsval) \<Rightarrow> jsval" where
  "extra_any d f = (case extra d of None \<Rightarrow> Undefined | Some e \<Rightarrow> f e)"

subsection \<open>Constants\<close>

definition COLORS :: "string list" where
  "COLORS = [''#FFA500'', ''#FFB300'', ''#FFC107'', ''#FFD54F'',
             ''#FF9800'', ''#FFECB3'', ''#FFF8E1'', ''#FFB74D'']"

text \<open>
  The three Portuguese string literals of the source: the prefix of a synthesized series
  name (\<^verbatim>\<open>S\<close>, e with acute accent, \<^verbatim>\<open>rie\<close> and a space), the histogram's default y label
  (\<^verbatim>\<open>Frequ\<close>, e with circumflex, \<^verbatim>\<open>ncia\<close>) and the text of the \<^verbatim>\<open>default\<close> branch
  (\<^verbatim>\<open>Tipo de gr\<close>, a with acute accent, \<^verbatim>\<open>fico n\<close>, a with tilde, \<^verbatim>\<open>o suportado: \<close>).
\<close>

definition serie_prefix :: string where
  "serie_prefix = ''S'' @ [CHR 0xC3, CHR 0xA9] @ ''rie ''"

definition frequencia :: string where
  "frequencia = ''Frequ'' @ [CHR 0xC3, CHR 0xAA] @ ''ncia''"

definition nao_suportado :: string where
  "nao_suportado =
     ''Tipo de gr'' @ [CHR 0xC3, CHR 0xA1] @ ''fico n'' @ [CHR 0xC3, CHR 0xA3] @ ''o suportado: ''"

subsection \<open>\<^verbatim>\<open>prepareChartData\<close>\<close>

text \<open>
  A data point is a plain JavaScript object, modelled by its own properties: a finite map
  from property names to values.  A property can be present and hold \<^verbatim>\<open>undefined\<close>, which
  is \<open>Some Undefined\<close>.
\<close>

type_synonym point = "string \<rightharpoonup> jsval"

text \<open>\<^verbatim>\<open>data.extra?.legendas?.[seriesIndex] || `<serie_prefix>${seriesIndex + 1}`\<close>\<close>

definition seriesName :: "VisualizationData \<Rightarrow> nat \<Rightarrow> string" where
  "seriesName d seriesIndex =
     (let legenda = (case extra_field d legendas of
                       None \<Rightarrow> None
                     | Some ls \<Rightarrow> at_index ls seriesIndex);
          fallback = serie_prefix @ string_of_nat (seriesIndex + 1)
      in case legenda of
           None \<Rightarrow> fallback
         | Some s \<Rightarrow> if s \<noteq> [] then s else fallback)"

text \<open>\<^verbatim>\<open>Array.isArray(data.values[0])\<close>, for \<^verbatim>\<open>values\<close> present.\<close>

fun first_is_array :: "series_values \<Rightarrow> bool" where
  "first_is_array (Nested (s # ss)) = True"
| "first_is_array (Nested []) = False"
| "first_is_array (Flat xs) = False"

text \<open>\<^verbatim>\<open>data.values[index]\<close> as the single-series branch reads it.\<close>

fun values_at :: "series_values \<Rightarrow> nat \<Rightarrow> jsval" where
  "values_at (Flat xs) i = num_at xs i"
| "values_at (Nested ss) i =
     (case at_index ss i of Some s \<Rightarrow> Arr (map Num s) | None \<Rightarrow> Undefined)"

text \<open>
  \<^verbatim>\<open>data.values as number[][]\<close>: the series that \<^verbatim>\<open>forEach\<close> and \<^verbatim>\<open>map\<close> visit.  It is read
  only where \<^verbatim>\<open>data.values[0]\<close> is an array, that is, on nested values.
\<close>

fun series_of :: "series_values \<Rightarrow> real list list" where
  "series_of (Nested ss) = ss"
| "series_of (Flat xs) = []"

text \<open>
  The body of the inner \<^verbatim>\<open>forEach\<close>: \<^verbatim>\<open>dataPoint[seriesName] = series[index]\<close>, for the
  pair of a series and its index.  The assignment creates or overwrites an own property,
  for every name but one: \<^verbatim>\<open>__proto__\<close> is an accessor that the object inherits from
  \<^verbatim>\<open>Object.prototype\<close>, so the assignment runs its setter, and the setter ignores a value
  that is a number or \<^verbatim>\<open>undefined\<close>.  The object is left as it was.
\<close>

definition assign_series :: "VisualizationData \<Rightarrow> nat \<Rightarrow> nat \<times> real list \<Rightarrow> point \<Rightarrow> point" where
  "assign_series d index p dataPoint =
     (if seriesName d (fst p) = ''__proto__'' then dataPoint
      else dataPoint(seriesName d (fst p) \<mapsto> num_at (snd p) index))"

definition multi_point :: "VisualizationData \<Rightarrow> real list list \<Rightarrow> nat \<times> label \<Rightarrow> point" where
  "multi_point d ss il =
     fold (assign_series d (fst il)) (enumerate 0 ss) [''name'' \<mapsto> label_val (snd il)]"

definition single_point :: "series_values \<Rightarrow> nat \<times> label \<Rightarrow> point" where
  "single_point vs il =
     [''name'' \<mapsto> label_val (snd il),
      ''value'' \<mapsto> values_at vs (fst il),
      ''x'' \<mapsto> (case snd il of NumLabel n \<Rightarrow> Num n | StrLabel s \<Rightarrow> Num (real (fst il))),
      ''y'' \<mapsto> values_at vs (fst il)]"

definition prepareChartData :: "VisualizationData \<Rightarrow> point list" where
  "prepareChartData d =
     (case labels d of
        None \<Rightarrow> []
      | Some ls \<Rightarrow>
         (case values' d of
            None \<Rightarrow> []
          | Some vs \<Rightarrow>
             if first_is_array vs
             then map (multi_point d (series_of vs)) (enumerate 0 ls)
             else map (single_point vs) (enumerate 0 ls)))"

text \<open>\<^verbatim>\<open>data.extra?.colors || COLORS\<close>: an array, even an empty one, counts as true.\<close>

definition customColors :: "VisualizationData \<Rightarrow> string list" where
  "customColors d = (case extra_field d colors of None \<Rightarrow> COLORS | Some cs \<Rightarrow> cs)"

subsection \<open>The rendered tree\<close>

text \<open>
  \<open>Mark\<close> is one drawn series: a \<^verbatim>\<open>Bar\<close>, \<^verbatim>\<open>Line\<close> or \<^verbatim>\<open>Area\<close> element with its \<^verbatim>\<open>dataKey\<close>
  and its colour (\<^verbatim>\<open>fill\<close> or \<^verbatim>\<open>stroke\<close>).  The colour is a value because an index past the
  palette reads \<^verbatim>\<open>undefined\<close>.
\<close>

datatype mark = Mark (dataKey: string) (paint: jsval)

text \<open>The data of the boxplot's \<^verbatim>\<open>AreaChart\<close>: \<^verbatim>\<open>data.extra?.quartis || chartData\<close>.\<close>

datatype box_source = Quartis jsval | ChartData "point list"

text \<open>
  One constructor for each chart element \<^verbatim>\<open>renderChart\<close> returns, and \<open>Unsupported\<close> for
  the \<^verbatim>\<open>div\<close> of the \<^verbatim>\<open>default\<close> branch, with its text.  An axis label is \<open>None\<close>
  where the \<^verbatim>\<open>label\<close> prop is \<^verbatim>\<open>undefined\<close>; \<open>legend\<close> says whether a \<^verbatim>\<open>Legend\<close> element is
  among the children; \<open>barCategoryGap\<close> is the prop of that name where it is given.
\<close>

datatype chart =
    BarChart (chart_data: "point list") (barCategoryGap: "nat option")
      (xAxisLabel: "string option") (yAxisLabel: "string option")
      (marks: "mark list") (legend: bool)
  | LineChart (chart_data: "point list")
      (xAxisLabel: "string option") (yAxisLabel: "string option")
      (marks: "mark list") (legend: bool)
  | PieChart (chart_data: "point list") (pieDataKey: string) (cells: "jsval list")
  | ScatterChart (xAxisLabel: "string option") (yAxisLabel: "string option")
      (chart_data: "point list") (scatterFill: jsval)
  | AreaChart (boxData: box_source) (marks: "mark list")
  | Unsupported string

text \<open>The \<^verbatim>\<open>Card\<close> the component returns: the optional title and the chart.\<close>

datatype element = Card (card_title: "string option") (card_chart: chart)

subsection \<open>\<^verbatim>\<open>renderChart\<close>\<close>

text \<open>\<^verbatim>\<open>s ? { value: s, ... } : undefined\<close> for the optional string \<^verbatim>\<open>s\<close>.\<close>

definition axis_label :: "string option \<Rightarrow> string option" where
  "axis_label s = (case s of None \<Rightarrow> None | Some t \<Rightarrow> if t \<noteq> [] then Some t else None)"

text \<open>
  The histogram's y axis:
  \<^verbatim>\<open>data.extra?.yLabel ? { value: data.extra.yLabel || <frequencia>, ... } : undefined\<close>.
\<close>

definition histogram_y_label :: "string option \<Rightarrow> string option" where
  "histogram_y_label s =
     (case s of
        None \<Rightarrow> None
      | Some t \<Rightarrow> if t \<noteq> [] then Some (if t \<noteq> [] then t else frequencia) else None)"

text \<open>
  The series elements of a bar or line chart: one per entry of \<^verbatim>\<open>data.values\<close> when
  \<^verbatim>\<open>data.values[0]\<close> is an array, else the single one keyed \<^verbatim>\<open>"value"\<close>.
\<close>

definition series_mark :: "VisualizationData \<Rightarrow> string list \<Rightarrow> nat \<times> real list \<Rightarrow> mark" where
  "series_mark d cc p = Mark (seriesName d (fst p)) (str_at_mod cc (fst p))"

definition series_marks :: "VisualizationData \<Rightarrow> string list \<Rightarrow> series_values \<Rightarrow> mark list" where
  "series_marks d cc vs =
     (if first_is_array vs
      then map (series_mark d cc) (enumerate 0 (series_of vs))
      else [Mark ''value'' (str_at cc 0)])"

text \<open>
  \<^verbatim>\<open>chartData.map((item, index) => ({...item, fill: customColors[index % customColors.length]}))\<close>
\<close>

definition pie_point :: "string list \<Rightarrow> nat \<times> point \<Rightarrow> point" where
  "pie_point cc ip = (snd ip)(''fill'' \<mapsto> str_at_mod cc (fst ip))"

text \<open>The \<^verbatim>\<open>fill\<close> of a \<^verbatim>\<open>Cell\<close>: \<^verbatim>\<open>entry.fill\<close>, \<^verbatim>\<open>undefined\<close> for a missing property.\<close>

definition cell_fill :: "point \<Rightarrow> jsval" where
  "cell_fill entry = (case entry ''fill'' of None \<Rightarrow> Undefined | Some v \<Rightarrow> v)"

text \<open>
  \<^verbatim>\<open>renderChart\<close> closes over \<^verbatim>\<open>data\<close>, \<^verbatim>\<open>chartData\<close> and \<^verbatim>\<open>customColors\<close>.  The bar and line
  branches evaluate \<^verbatim>\<open>data.values[0]\<close>, which throws a \<^verbatim>\<open>TypeError\<close> when \<^verbatim>\<open>data.values\<close> is
  missing; no other branch reads \<^verbatim>\<open>data.values\<close>.
\<close>

definition renderChart :: "VisualizationData \<Rightarrow> point list \<Rightarrow> string list \<Rightarrow> js_error + chart" where
  "renderChart d chartData cc =
     (if type d = ''bar'' then
        (case values' d of
           None \<Rightarrow> Inl TypeError
         | Some vs \<Rightarrow>
            Inr (BarChart chartData None
                   (axis_label (extra_field d xLabel)) (axis_label (extra_field d yLabel))
                   (series_marks d cc vs)
                   (extra_field d legendas \<noteq> None)))
      else if type d = ''line'' \<or> type d = ''timeseries'' then
        (case values' d of
           None \<Rightarrow> Inl TypeError
         | Some vs \<Rightarrow>
            Inr (LineChart chartData
                   (axis_label (extra_field d xLabel)) (axis_label (extra_field d yLabel))
                   (series_marks d cc vs)
                   (extra_field d legendas \<noteq> None)))
      else if type d = ''pie'' then
        (let pieData = map (pie_point cc) (enumerate 0 chartData)
         in Inr (PieChart pieData ''value'' (map cell_fill pieData)))
      else if type d = ''scatter'' then
        Inr (ScatterChart
               (axis_label (extra_field d xLabel)) (axis_label (extra_field d yLabel))
               chartData (str_at cc 0))
      else if type d = ''histogram'' then
        Inr (BarChart chartData (Some 0)
               (axis_label (extra_field d xLabel)) (histogram_y_label (extra_field d yLabel))
               [Mark ''value'' (str_at cc 0)]
               False)
      else if type d = ''boxplot'' then
        (let boxData = (if truthy (extra_any d quartis) then Quartis (extra_any d quartis)
                        else ChartData chartData)
         in Inr (AreaChart boxData
                   (Mark ''value'' (str_at cc 0) #
                    (if truthy (extra_any d ranges) then [Mark ''max'' (str_at cc 1)] else []))))
      else Inr (Unsupported (nao_suportado @ type d)))"

subsection \<open>\<^verbatim>\<open>Visualization\<close>\<close>

text \<open>\<^verbatim>\<open>data.extra?.title && <h3>...</h3>\<close>: the heading, when the title is a non-empty string.\<close>

definition heading :: "VisualizationData \<Rightarrow> string option" where
  "heading d =
     (case extra_field d title of None \<Rightarrow> None | Some t \<Rightarrow> if t \<noteq> [] then Some t else None)"

text \<open>
  The component: \<^verbatim>\<open>null\<close> (here \<open>Inr None\<close>) for a missing \<^verbatim>\<open>data\<close>, else the card around
  the chart.  An exception thrown while rendering leaves the component as \<open>Inl\<close>.
\<close>

definition Visualization :: "VisualizationData option \<Rightarrow> js_error + element option" where
  "Visualization data =
     (case data of
        None \<Rightarrow> Inr None
      | Some d \<Rightarrow>
         (let chartData = prepareChartData d;
              cc = customColors d
          in case renderChart d chartData cc of
               Inl e \<Rightarrow> Inl e
             | Inr c \<Rightarrow> Inr (Some (Card (heading d) c))))"

subsection \<open>What the specification says about the legend\<close>

text \<open>
  The number of series of a spec, in the specification's sense: one inner sequence per
  series for nested values, one series for flat values.
\<close>

definition series_count :: "VisualizationData \<Rightarrow> nat" where
  "series_count d =
     (case values' d of None \<Rightarrow> 0 | Some (Flat xs) \<Rightarrow> 1 | Some (Nested ss) \<Rightarrow> length ss)"

definition has_legendas :: "VisualizationData \<Rightarrow> bool" where
  "has_legendas d = (case extra_field d legendas of None \<Rightarrow> False | Some ls \<Rightarrow> True)"

text \<open>
  The specification's \<^verbatim>\<open>legendRequired\<close>, in its words: true exactly when multiple series
  are present or explicit series names were supplied.
\<close>

definition spec_legendRequired :: "VisualizationData \<Rightarrow> bool" where
  "spec_legendRequired d = (1 < series_count d \<or> has_legendas d)"

text \<open>Whether the tree the component returns has a \<^verbatim>\<open>Legend\<close> element.\<close>

fun has_legend :: "chart \<Rightarrow> bool" where
  "has_legend (BarChart cd gap xl yl ms lg) = lg"
| "has_legend (LineChart cd xl yl ms lg) = lg"
| "has_legend (PieChart cd k cs) = False"
| "has_legend (ScatterChart xl yl cd f) = False"
| "has_legend (AreaChart bd ms) = False"
| "has_legend (Unsupported t) = False"

definition legend_rendered :: "VisualizationData \<Rightarrow> bool" where
  "legend_rendered d =
     (case Visualization (Some d) of
        Inl e \<Rightarrow> False
      | Inr None \<Rightarrow> False
      | Inr (Some el) \<Rightarrow> has_legend (card_chart el))"

subsection \<open>Example payloads\<close>

text \<open>\<^verbatim>\<open>extra: {}\<close>\<close>

definition no_extra :: VisualizationExtra where
  "no_extra = \<lparr>title = None, xLabel = None, yLabel = None, colors = None,
                quartis = Undefined, ranges = Undefined, legendas = None\<rparr>"


text \<open>\<^verbatim>\<open>{type: "scatter", labels: [2.5, "b", "c"], values: [10, 20]}\<close>\<close>

definition ex_scatter :: VisualizationData where
  "ex_scatter = \<lparr>type = ''scatter'',
                 labels = Some [NumLabel 2.5, StrLabel ''b'', StrLabel ''c''],
                 values' = Some (Flat [10, 20]), extra = None\<rparr>"

text \<open>\<^verbatim>\<open>{type: "bar", labels: [], values: []}\<close>\<close>

definition ex_empty :: VisualizationData where
  "ex_empty = \<lparr>type = ''bar'', labels = Some [], values' = Some (Flat []), extra = None\<rparr>"

text \<open>\<^verbatim>\<open>{type: "pie", labels: ["a", "b"], values: [[1, 2], [3, 4]]}\<close>\<close>

definition ex_pie_multi :: VisualizationData where
  "ex_pie_multi = \<lparr>type = ''pie'', labels = Some [StrLabel ''a'', StrLabel ''b''],
                   values' = Some (Nested [[1, 2], [3, 4]]), extra = None\<rparr>"

text \<open>\<^verbatim>\<open>{type: "foo", labels: ["a"], values: [1]}\<close>\<close>

definition ex_foo :: VisualizationData where
  "ex_foo = \<lparr>type = ''foo'', labels = Some [StrLabel ''a''],
             values' = Some (Flat [1]), extra = None\<rparr>"

text \<open>
  \<^verbatim>\<open>{type: "line", labels: ["t1", "t2"], values: [[1, 2], [3, 4]], extra: {legendas: ["Wind"]}}\<close>
\<close>

definition ex_wind :: VisualizationData where
  "ex_wind = \<lparr>type = ''line'', labels = Some [StrLabel ''t1'', StrLabel ''t2''],
              values' = Some (Nested [[1, 2], [3, 4]]),
              extra = Some (no_extra\<lparr>legendas := Some [''Wind'']\<rparr>)\<rparr>"

text \<open>\<^verbatim>\<open>{type: "bar", labels: ["a", "b"], values: [[1, 2], [3, 4]]}\<close>\<close>

definition ex_multi_plain :: VisualizationData where
  "ex_multi_plain = \<lparr>type = ''bar'', labels = Some [StrLabel ''a'', StrLabel ''b''],
                     values' = Some (Nested [[1, 2], [3, 4]]), extra = None\<rparr>"

text \<open>\<^verbatim>\<open>{type: "bar", labels: ["a"], values: [[1], [2]], extra: {colors: []}}\<close>\<close>

definition ex_empty_palette :: VisualizationData where
  "ex_empty_palette = \<lparr>type = ''bar'', labels = Some [StrLabel ''a''],
                       values' = Some (Nested [[1], [2]]),
                       extra = Some (no_extra\<lparr>colors := Some []\<rparr>)\<rparr>"

text \<open>\<^verbatim>\<open>{type: "histogram", labels: ["0-10"], values: [5]}\<close>\<close>

definition ex_hist :: VisualizationData where
  "ex_hist = \<lparr>type = ''histogram'', labels = Some [StrLabel ''0-10''],
              values' = Some (Flat [5]), extra = None\<rparr>"

text \<open>\<^verbatim>\<open>{type: "line", labels: ["a", "b"], values: [[1], [5, 6]]}\<close>\<close>

definition ex_short :: VisualizationData where
  "ex_short = \<lparr>type = ''line'', labels = Some [StrLabel ''a'', StrLabel ''b''],
               values' = Some (Nested [[1], [5, 6]]), extra = None\<rparr>"

text \<open>The same with \<^verbatim>\<open>extra: {legendas: ["A", "A"]}\<close>.\<close>

definition ex_dup :: VisualizationData where
  "ex_dup = ex_short\<lparr>extra := Some (no_extra\<lparr>legendas := Some [''A'', ''A'']\<rparr>)\<rparr>"

text \<open>
  \<^verbatim>\<open>{type: "line", labels: ["a"], values: [[1], [2]], extra: {legendas: ["__proto__", "B"]}}\<close>
\<close>

definition ex_proto :: VisualizationData where
  "ex_proto = \<lparr>type = ''line'', labels = Some [StrLabel ''a''],
               values' = Some (Nested [[1], [2]]),
               extra = Some (no_extra\<lparr>legendas := Some [''__proto__'', ''B'']\<rparr>)\<rparr>"

text \<open>\<^verbatim>\<open>{type: "bar", labels: ["a"]}\<close>\<close>

definition ex_no_values :: VisualizationData where
  "ex_no_values = \<lparr>type = ''bar'', labels = Some [StrLabel ''a''],
                   values' = None, extra = None\<rparr>"

section \<open>Properties\<close>

subsection \<open>Shared facts\<close>

lemma string_of_nat_digit: "n < 10 \<Longrightarrow> string_of_nat n = [digit_char n]"
  by (simp add: string_of_nat.simps)

lemma length_prepareChartData:
  assumes "labels d = Some ls" and "values' d = Some vs"
  shows "length (prepareChartData d) = length ls"
  using assms by (simp add: prepareChartData_def)

lemma prepareChartData_missing:
  assumes "labels d = None \<or> values' d = None"
  shows "prepareChartData d = []"
  using assms by (auto simp: prepareChartData_def split: option.splits)

lemma single_nth:
  assumes "labels d = Some ls" and "values' d = Some vs" and "\<not> first_is_array vs"
    and "i < length ls"
  shows "prepareChartData d ! i = single_point vs (i, ls ! i)"
  using assms by (simp add: prepareChartData_def nth_enumerate_eq)

lemma multi_nth:
  assumes "labels d = Some ls" and "values' d = Some (Nested ss)" and "ss \<noteq> []"
    and "i < length ls"
  shows "prepareChartData d ! i = multi_point d ss (i, ls ! i)"
proof -
  from assms(3) obtain s0 rest where "ss = s0 # rest"
    by (cases ss) auto
  with assms show ?thesis
    by (simp add: prepareChartData_def nth_enumerate_eq)
qed

lemma renderChart_values_present:
  assumes "values' d = Some vs"
  shows "\<exists>c. renderChart d cd cc = Inr c"
  using assms by (simp add: renderChart_def Let_def)

lemma Visualization_rendered:
  assumes "renderChart d (prepareChartData d) (customColors d) = Inr c"
  shows "Visualization (Some d) = Inr (Some (Card (heading d) c))"
  using assms by (simp add: Visualization_def)

lemma Visualization_null: "Visualization None = Inr None"
  by (simp add: Visualization_def)

lemma customColors_absent:
  assumes "extra_field d colors = None"
  shows "customColors d = COLORS"
  using assms by (simp add: customColors_def)

lemma customColors_supplied:
  assumes "extra_field d colors = Some cs"
  shows "customColors d = cs"
  using assms by (simp add: customColors_def)

lemma str_at_mod_cyclic:
  assumes "cs \<noteq> []"
  shows "str_at_mod cs s = Str (cs ! (s mod length cs))"
  using assms by (simp add: str_at_mod_def str_at_def at_index_def)

lemma length_COLORS: "length COLORS = 8"
  by (simp add: COLORS_def)

lemma default_palette_cyclic:
  assumes "extra_field d colors = None"
  shows "str_at_mod (customColors d) s = Str (COLORS ! (s mod 8))"
proof -
  have "COLORS \<noteq> []" by (simp add: COLORS_def)
  then show ?thesis
    using assms by (simp add: customColors_absent str_at_mod_cyclic length_COLORS)
qed

lemma fold_assign_snoc:
  "fold (assign_series d index) (ps @ [p]) m0 k =
     (if k = seriesName d (fst p) \<and> k \<noteq> ''__proto__'' then Some (num_at (snd p) index)
      else fold (assign_series d index) ps m0 k)"
  by (simp add: assign_series_def)

lemma fold_assign_untouched:
  assumes "\<And>p. p \<in> set ps \<Longrightarrow> seriesName d (fst p) \<noteq> k \<or> k = ''__proto__''"
  shows "fold (assign_series d index) ps m0 k = m0 k"
  using assms
proof (induction ps rule: rev_induct)
  case Nil
  then show ?case by simp
next
  case (snoc p ps)
  have "seriesName d (fst p) \<noteq> k \<or> k = ''__proto__''"
    using snoc.prems [of p] by simp
  moreover have "fold (assign_series d index) ps m0 k = m0 k"
    by (rule snoc.IH) (use snoc.prems in auto)
  ultimately show ?case
    by (auto simp add: fold_assign_snoc simp del: fold_append)
qed

lemma fold_assign_last:
  assumes "j < length ps"
    and "seriesName d (fst (ps ! j)) \<noteq> ''__proto__''"
    and "\<And>j'. j < j' \<Longrightarrow> j' < length ps \<Longrightarrow>
          seriesName d (fst (ps ! j')) \<noteq> seriesName d (fst (ps ! j))"
  shows "fold (assign_series d index) ps m0 (seriesName d (fst (ps ! j))) =
          Some (num_at (snd (ps ! j)) index)"
  using assms
proof (induction ps rule: rev_induct)
  case Nil
  then show ?case by simp
next
  case (snoc p ps)
  show ?case
  proof (cases "j = length ps")
    case True
    with snoc.prems(2) show ?thesis
      by (simp add: fold_assign_snoc del: fold_append)
  next
    case False
    with snoc.prems(1) have j: "j < length ps" by simp
    have np: "seriesName d (fst (ps ! j)) \<noteq> ''__proto__''"
      using snoc.prems(2) j by (simp add: nth_append)
    have ne: "seriesName d (fst p) \<noteq> seriesName d (fst (ps ! j))"
      using snoc.prems(3) [of "length ps"] j by (simp add: nth_append)
    have later: "seriesName d (fst (ps ! j')) \<noteq> seriesName d (fst (ps ! j))"
      if "j < j'" and "j' < length ps" for j'
      using snoc.prems(3) [of j'] j that by (simp add: nth_append)
    have "fold (assign_series d index) ps m0 (seriesName d (fst (ps ! j))) =
        Some (num_at (snd (ps ! j)) index)"
      using snoc.IH [OF j np later] by simp
    then show ?thesis
      using ne j by (simp add: fold_assign_snoc nth_append del: fold_append)
  qed
qed

lemma enumerate_nth_0: "k < length ss \<Longrightarrow> enumerate 0 ss ! k = (k, ss ! k)"
  by (simp add: nth_enumerate_eq)

lemma multi_point_field:
  assumes "s < length ss"
    and "seriesName d s \<noteq> ''__proto__''"
    and "\<And>s'. s < s' \<Longrightarrow> s' < length ss \<Longrightarrow> seriesName d s' \<noteq> seriesName d s"
  shows "multi_point d ss (i, l) (seriesName d s) = Some (num_at (ss ! s) i)"
proof -
  let ?ps = "enumerate 0 ss"
  have j: "s < length ?ps" using assms(1) by simp
  have np: "seriesName d (fst (?ps ! s)) \<noteq> ''__proto__''"
    using assms(1,2) by (simp add: enumerate_nth_0)
  have later: "seriesName d (fst (?ps ! j')) \<noteq> seriesName d (fst (?ps ! s))"
    if "s < j'" and "j' < length ?ps" for j'
    using assms that by (simp add: enumerate_nth_0)
  from fold_assign_last [OF j np later, of i "[''name'' \<mapsto> label_val l]"]
  show ?thesis using assms(1) by (simp add: multi_point_def enumerate_nth_0)
qed

lemma multi_point_other:
  assumes "\<And>s. s < length ss \<Longrightarrow> seriesName d s \<noteq> k \<or> k = ''__proto__''"
  shows "multi_point d ss (i, l) k = (if k = ''name'' then Some (label_val l) else None)"
proof -
  have "seriesName d (fst p) \<noteq> k \<or> k = ''__proto__''" if "p \<in> set (enumerate 0 ss)" for p
    using that assms [of "fst p"] by (auto simp: in_set_enumerate_eq)
  then have "fold (assign_series d i) (enumerate 0 ss) [''name'' \<mapsto> label_val l] k =
      [''name'' \<mapsto> label_val l] k"
    by (rule fold_assign_untouched)
  then show ?thesis
    by (simp add: multi_point_def)
qed

lemma series_marks_nested:
  assumes "ss \<noteq> []"
  shows "map dataKey (series_marks d cc (Nested ss)) = map (seriesName d) [0..<length ss]"
proof -
  from assms obtain s0 rest where "ss = s0 # rest"
    by (cases ss) auto
  then have "series_marks d cc (Nested ss) = map (series_mark d cc) (enumerate 0 ss)"
    by (simp add: series_marks_def)
  moreover have "map dataKey (map (series_mark d cc) (enumerate 0 ss)) =
      map (seriesName d) [0..<length ss]"
    by (rule nth_equalityI) (simp_all add: series_mark_def nth_enumerate_eq)
  ultimately show ?thesis by simp
qed



lemma histogram_default_unreachable: "histogram_y_label s = axis_label s"
  by (simp add: histogram_y_label_def axis_label_def split: option.splits)

lemma histogram_contiguous:
  assumes "type d = ''histogram''"
  shows "renderChart d cd cc =
     Inr (BarChart cd (Some 0) (axis_label (extra_field d xLabel))
            (axis_label (extra_field d yLabel)) [Mark ''value'' (str_at cc 0)] False)"
  using assms by (simp add: renderChart_def histogram_default_unreachable)

lemma Visualization_throws_iff:
  "Visualization (Some d) = Inl TypeError \<longleftrightarrow>
     values' d = None \<and> (type d = ''bar'' \<or> type d = ''line'' \<or> type d = ''timeseries'')"
  by (auto simp: Visualization_def renderChart_def Let_def split: option.splits)

subsection \<open>The single-series points\<close>

text \<open>
  Claim C1.  For a spec with labels present and flat values, \<^verbatim>\<open>prepareChartData\<close> returns
  exactly one point per label, and point \<open>i\<close> has exactly the four properties \<^verbatim>\<open>name\<close> (the
  category, \<open>labels[i]\<close>), \<^verbatim>\<open>value\<close> (\<open>values[i]\<close>), \<^verbatim>\<open>x\<close> (the label when it is a number,
  else the index \<open>i\<close>) and \<^verbatim>\<open>y\<close> (\<open>values[i]\<close>), where \<open>values[i]\<close> past the end of
  \<open>values\<close> is \<^verbatim>\<open>undefined\<close>.
\<close>

theorem prepareChartData_single_series:
  assumes "labels d = Some ls" and "values' d = Some (Flat vs)"
  shows "length (prepareChartData d) = length ls \<and>
    (\<forall>i<length ls.
       dom (prepareChartData d ! i) = {''name'', ''value'', ''x'', ''y''} \<and>
       (prepareChartData d ! i) ''name'' = Some (label_val (ls ! i)) \<and>
       (prepareChartData d ! i) ''value'' =
          Some (if i < length vs then Num (vs ! i) else Undefined) \<and>
       (prepareChartData d ! i) ''x'' =
          Some (case ls ! i of NumLabel n \<Rightarrow> Num n | StrLabel s \<Rightarrow> Num (real i)) \<and>
       (prepareChartData d ! i) ''y'' =
          Some (if i < length vs then Num (vs ! i) else Undefined))"
proof -
  have len: "length (prepareChartData d) = length ls"
    using assms by (rule length_prepareChartData)
  have pt: "prepareChartData d ! i = single_point (Flat vs) (i, ls ! i)" if "i < length ls" for i
    using assms that by (simp add: single_nth)
  show ?thesis
    using len pt by (auto simp: single_point_def num_at_def at_index_def split: label.splits)
qed

theorem prepareChartData_single_series_witness:
  "length (prepareChartData ex_scatter) = 3 \<and>
   (prepareChartData ex_scatter ! 0) ''name'' = Some (Num 2.5) \<and>
   (prepareChartData ex_scatter ! 0) ''x'' = Some (Num 2.5) \<and>
   (prepareChartData ex_scatter ! 1) ''name'' = Some (Str ''b'') \<and>
   (prepareChartData ex_scatter ! 1) ''value'' = Some (Num 20) \<and>
   (prepareChartData ex_scatter ! 1) ''x'' = Some (Num 1) \<and>
   (prepareChartData ex_scatter ! 1) ''y'' = Some (Num 20) \<and>
   (prepareChartData ex_scatter ! 2) ''value'' = Some Undefined"
proof -
  have l: "labels ex_scatter = Some [NumLabel 2.5, StrLabel ''b'', StrLabel ''c'']"
    by (simp add: ex_scatter_def)
  have v: "values' ex_scatter = Some (Flat [10, 20])"
    by (simp add: ex_scatter_def)
  note t = prepareChartData_single_series [OF l v]
  from t have len: "length (prepareChartData ex_scatter) = 3" by simp
  from t have p0: "(prepareChartData ex_scatter ! 0) ''name'' = Some (Num 2.5) \<and>
      (prepareChartData ex_scatter ! 0) ''x'' = Some (Num 2.5)"
    by simp
  from t [THEN conjunct2, rule_format, of 1]
  have p1: "(prepareChartData ex_scatter ! 1) ''name'' = Some (Str ''b'') \<and>
      (prepareChartData ex_scatter ! 1) ''value'' = Some (Num 20) \<and>
      (prepareChartData ex_scatter ! 1) ''x'' = Some (Num 1) \<and>
      (prepareChartData ex_scatter ! 1) ''y'' = Some (Num 20)"
    by simp
  from t [THEN conjunct2, rule_format, of 2]
  have p2: "(prepareChartData ex_scatter ! 2) ''value'' = Some Undefined"
    by simp
  from len p0 p1 p2 show ?thesis by simp
qed

subsection \<open>Unsupported chart types\<close>

text \<open>
  Claim C4.  For every spec whose type is none of line, bar, pie, boxplot, scatter,
  histogram and timeseries, the component throws nothing and returns the card around the
  placeholder of the \<^verbatim>\<open>default\<close> branch, whose text names the type as not supported, in
  place of any chart.
\<close>

theorem unsupported_kind_fallback:
  assumes "type d \<notin> {''line'', ''bar'', ''pie'', ''boxplot'', ''scatter'', ''histogram'', ''timeseries''}"
  shows "Visualization (Some d) = Inr (Some (Card (heading d) (Unsupported (nao_suportado @ type d))))"
  using assms by (simp add: Visualization_def renderChart_def)

theorem unsupported_kind_fallback_witness:
  "Visualization (Some ex_foo) = Inr (Some (Card None (Unsupported (nao_suportado @ ''foo''))))"
proof -
  have k: "type ex_foo \<notin> {''line'', ''bar'', ''pie'', ''boxplot'', ''scatter'', ''histogram'', ''timeseries''}"
    by (simp add: ex_foo_def)
  from unsupported_kind_fallback [OF k] show ?thesis
    by (simp add: ex_foo_def heading_def extra_field_def)
qed

subsection \<open>Empty series\<close>

text \<open>
  Claim C2 at \<^verbatim>\<open>{type: "bar", labels: [], values: []}\<close>: the empty values are not taken for
  several series and \<^verbatim>\<open>prepareChartData\<close> returns the empty point list, but the component
  then goes on and returns the card around a bar chart drawn over no points, where the
  claim says that no chart is built.
\<close>

theorem empty_series_draws_chart:
  "\<not> first_is_array (Flat []) \<and> \<not> first_is_array (Nested []) \<and>
   prepareChartData ex_empty = [] \<and>
   Visualization (Some ex_empty) =
     Inr (Some (Card None (BarChart [] None None None [Mark ''value'' (Str ''#FFA500'')] False)))"
  by (simp add: Visualization_def renderChart_def prepareChartData_def customColors_def
      heading_def extra_field_def axis_label_def series_marks_def str_at_def at_index_def
      COLORS_def ex_empty_def)

subsection \<open>A pie chart over several series\<close>




subsection \<open>Series names\<close>




subsection \<open>The legend\<close>

text \<open>
  Claim C6, as stated, fails: a bar chart over two series without \<^verbatim>\<open>legendas\<close> has several
  series, so the specification requires a legend, and the component renders none.
\<close>

theorem legend_counterexample:
  "spec_legendRequired ex_multi_plain \<and> \<not> legend_rendered ex_multi_plain"
  by (simp add: spec_legendRequired_def series_count_def legend_rendered_def
      Visualization_def renderChart_def extra_field_def ex_multi_plain_def)

text \<open>
  Claim C6, amended.  For every spec with values present, the returned tree has a legend
  exactly when the type is bar, line or timeseries and \<^verbatim>\<open>extra.legendas\<close> is present; the
  number of series plays no part.
\<close>

theorem legend_rendered_iff:
  assumes "values' d = Some vs"
  shows "legend_rendered d \<longleftrightarrow>
     (type d = ''bar'' \<or> type d = ''line'' \<or> type d = ''timeseries'') \<and> has_legendas d"
  using assms
  by (auto simp: legend_rendered_def Visualization_def renderChart_def has_legendas_def Let_def
      split: option.splits)

theorem legend_rendered_iff_witness:
  "legend_rendered ex_wind \<and> \<not> legend_rendered ex_multi_plain \<and> \<not> legend_rendered ex_pie_multi"
proof -
  have w: "values' ex_wind = Some (Nested [[1, 2], [3, 4]])"
    by (simp add: ex_wind_def)
  have m: "values' ex_multi_plain = Some (Nested [[1, 2], [3, 4]])"
    by (simp add: ex_multi_plain_def)
  have p: "values' ex_pie_multi = Some (Nested [[1, 2], [3, 4]])"
    by (simp add: ex_pie_multi_def)
  from legend_rendered_iff [OF w] have 1: "legend_rendered ex_wind"
    by (simp add: has_legendas_def extra_field_def ex_wind_def no_extra_def)
  from legend_rendered_iff [OF m] have 2: "\<not> legend_rendered ex_multi_plain"
    by (simp add: has_legendas_def extra_field_def ex_multi_plain_def)
  from legend_rendered_iff [OF p] have 3: "\<not> legend_rendered ex_pie_multi"
    by (simp add: ex_pie_multi_def)
  from 1 2 3 show ?thesis by blast
qed

subsection \<open>Colours\<close>

text \<open>
  Claim C7 at an empty palette: with \<^verbatim>\<open>extra.colors = []\<close> the palette in use is the empty
  array, not the default one, and both series of the bar chart get the colour
  \<^verbatim>\<open>undefined\<close>, where the claim gives them the default palette's entries 0 and 1.  (For a
  non-empty or a missing palette the colour of series \<open>s\<close> of a bar or line chart is cyclic
  as claimed: see \<open>str_at_mod_cyclic\<close> and \<open>default_palette_cyclic\<close>.)
\<close>

theorem empty_palette_no_default:
  "customColors ex_empty_palette = [] \<and>
   renderChart ex_empty_palette (prepareChartData ex_empty_palette) (customColors ex_empty_palette) =
     Inr (BarChart (prepareChartData ex_empty_palette) None None None
            [Mark (serie_prefix @ ''1'') Undefined, Mark (serie_prefix @ ''2'') Undefined]
            False)"
proof -
  have cc: "customColors ex_empty_palette = []"
    by (simp add: customColors_def extra_field_def ex_empty_palette_def no_extra_def)
  have t: "type ex_empty_palette = ''bar''"
    and v: "values' ex_empty_palette = Some (Nested [[1], [2]])"
    and x: "extra_field ex_empty_palette xLabel = None"
    and y: "extra_field ex_empty_palette yLabel = None"
    and l: "extra_field ex_empty_palette legendas = None"
    by (simp_all add: extra_field_def ex_empty_palette_def no_extra_def)
  have n: "seriesName ex_empty_palette 0 = serie_prefix @ ''1''"
    "seriesName ex_empty_palette (Suc 0) = serie_prefix @ ''2''"
    by (simp_all add: seriesName_def l string_of_nat.simps digit_char_def)
  have "renderChart ex_empty_palette cd [] =
     Inr (BarChart cd None None None
            [Mark (serie_prefix @ ''1'') Undefined, Mark (serie_prefix @ ''2'') Undefined]
            False)" for cd
    by (simp add: renderChart_def t v x y l n axis_label_def series_marks_def series_mark_def
        str_at_mod_def)
  with cc show ?thesis by simp
qed

subsection \<open>The histogram\<close>

text \<open>
  Claim C8 at \<^verbatim>\<open>{type: "histogram", labels: ["0-10"], values: [5]}\<close>: the bars are contiguous
  (\<^verbatim>\<open>barCategoryGap\<close> is 0), but with \<^verbatim>\<open>yLabel\<close> unset the y axis has no label at all, where
  the claim gives it the default one.  The default of the source sits under a condition
  that already requires \<^verbatim>\<open>yLabel\<close> (see \<open>histogram_default_unreachable\<close>).
\<close>

theorem histogram_y_label_unset:
  "renderChart ex_hist (prepareChartData ex_hist) (customColors ex_hist) =
     Inr (BarChart (prepareChartData ex_hist) (Some 0) None None
            [Mark ''value'' (Str ''#FFA500'')] False)"
proof -
  have cc: "customColors ex_hist = COLORS"
    by (simp add: customColors_def extra_field_def ex_hist_def)
  have t: "type ex_hist = ''histogram''"
    and x: "extra_field ex_hist xLabel = None"
    and y: "extra_field ex_hist yLabel = None"
    by (simp_all add: extra_field_def ex_hist_def)
  have "renderChart ex_hist cd COLORS =
     Inr (BarChart cd (Some 0) None None [Mark ''value'' (Str ''#FFA500'')] False)" for cd
    by (simp add: renderChart_def t x y axis_label_def histogram_y_label_def str_at_def
        at_index_def COLORS_def)
  with cc show ?thesis by simp
qed

subsection \<open>Series shorter than the labels\<close>

text \<open>
  Claim C9, as stated, fails when two series resolve to the same name: with
  \<^verbatim>\<open>values = [[1], [5, 6]]\<close> and \<^verbatim>\<open>legendas = ["A", "A"]\<close> the first series has no value at
  index 1, yet the field of its name holds 6 there, written by the second series.
\<close>

theorem short_series_counterexample:
  "seriesName ex_dup 0 = ''A'' \<and>
   (prepareChartData ex_dup ! 1) (seriesName ex_dup 0) = Some (Num 6)"
proof -
  have l: "extra_field ex_dup legendas = Some [''A'', ''A'']"
    by (simp add: extra_field_def ex_dup_def ex_short_def no_extra_def)
  have n: "seriesName ex_dup 0 = ''A''" "seriesName ex_dup (Suc 0) = ''A''"
    by (simp_all add: seriesName_def l at_index_def)
  have lb: "labels ex_dup = Some [StrLabel ''a'', StrLabel ''b'']"
    and v: "values' ex_dup = Some (Nested [[1], [5, 6]])"
    by (simp_all add: ex_dup_def ex_short_def)
  have "prepareChartData ex_dup ! 1 = multi_point ex_dup [[1], [5, 6]] (1, StrLabel ''b'')"
    using multi_nth [OF lb v, of 1] by simp
  then have "(prepareChartData ex_dup ! 1) ''A'' = Some (Num 6)"
    by (simp add: multi_point_def assign_series_def n num_at_def at_index_def)
  with n show ?thesis by simp
qed

text \<open>
  Claim C9, amended.  For every multi-series spec with labels present there is one point
  per label, whatever the lengths of the series, and the component returns its card
  without throwing; for type bar, line or timeseries the chart in it carries those points
  and one mark per series.  For every label index \<open>i\<close> and every series \<open>s\<close> whose name is
  not \<^verbatim>\<open>__proto__\<close> and is not the name of a later series, the point's field of that name
  holds the series' value at \<open>i\<close>, and \<^verbatim>\<open>undefined\<close> when the series is too short.  A series
  named \<^verbatim>\<open>__proto__\<close> leaves no field on the point.
\<close>

theorem short_series_padded:
  assumes "labels d = Some ls" and "values' d = Some (Nested ss)" and "ss \<noteq> []"
  shows "length (prepareChartData d) = length ls \<and>
    (\<exists>c. renderChart d (prepareChartData d) (customColors d) = Inr c \<and>
         Visualization (Some d) = Inr (Some (Card (heading d) c)) \<and>
         (type d = ''bar'' \<or> type d = ''line'' \<or> type d = ''timeseries'' \<longrightarrow>
            chart_data c = prepareChartData d \<and>
            map dataKey (marks c) = map (seriesName d) [0..<length ss])) \<and>
    (\<forall>i<length ls. \<forall>s<length ss.
       (seriesName d s = ''__proto__'' \<longrightarrow>
          (prepareChartData d ! i) (seriesName d s) = None) \<and>
       (seriesName d s \<noteq> ''__proto__'' \<and>
        (\<forall>s'. s < s' \<and> s' < length ss \<longrightarrow> seriesName d s' \<noteq> seriesName d s) \<longrightarrow>
          (prepareChartData d ! i) (seriesName d s) =
            Some (if i < length (ss ! s) then Num (ss ! s ! i) else Undefined)))"
proof -
  let ?cd = "prepareChartData d"
  let ?cc = "customColors d"
  have len: "length ?cd = length ls"
    using assms(1,2) by (rule length_prepareChartData)
  obtain c where c: "renderChart d ?cd ?cc = Inr c"
    using renderChart_values_present [OF assms(2)] by blast
  then have vis: "Visualization (Some d) = Inr (Some (Card (heading d) c))"
    by (rule Visualization_rendered)
  have fan: "chart_data c = ?cd \<and> map dataKey (marks c) = map (seriesName d) [0..<length ss]"
    if "type d = ''bar'' \<or> type d = ''line'' \<or> type d = ''timeseries''"
  proof -
    have "chart_data c = ?cd \<and> marks c = series_marks d ?cc (Nested ss)"
      using that c assms(2) by (auto simp: renderChart_def)
    then show ?thesis
      by (simp add: series_marks_nested [OF assms(3)])
  qed
  have fld: "(seriesName d s = ''__proto__'' \<longrightarrow> (?cd ! i) (seriesName d s) = None) \<and>
       (seriesName d s \<noteq> ''__proto__'' \<and>
        (\<forall>s'. s < s' \<and> s' < length ss \<longrightarrow> seriesName d s' \<noteq> seriesName d s) \<longrightarrow>
          (?cd ! i) (seriesName d s) =
            Some (if i < length (ss ! s) then Num (ss ! s ! i) else Undefined))"
    if i: "i < length ls" and s: "s < length ss" for i s
  proof (intro conjI impI)
    have pt: "?cd ! i = multi_point d ss (i, ls ! i)"
      using assms i by (rule multi_nth)
    {
      assume "seriesName d s = ''__proto__''"
      then show "(?cd ! i) (seriesName d s) = None"
        by (simp add: pt multi_point_other)
    next
      assume a: "seriesName d s \<noteq> ''__proto__'' \<and>
        (\<forall>s'. s < s' \<and> s' < length ss \<longrightarrow> seriesName d s' \<noteq> seriesName d s)"
      have "multi_point d ss (i, ls ! i) (seriesName d s) = Some (num_at (ss ! s) i)"
        using s a by (intro multi_point_field) auto
      then show "(?cd ! i) (seriesName d s) =
          Some (if i < length (ss ! s) then Num (ss ! s ! i) else Undefined)"
        by (simp add: pt num_at_def at_index_def)
    }
  qed
  from len c vis fan fld show ?thesis by blast
qed

theorem short_series_padded_witness:
  "length (prepareChartData ex_short) = 2 \<and>
   (\<exists>c. Visualization (Some ex_short) = Inr (Some (Card (heading ex_short) c)) \<and>
        chart_data c = prepareChartData ex_short \<and>
        map dataKey (marks c) = [serie_prefix @ ''1'', serie_prefix @ ''2'']) \<and>
   (prepareChartData ex_short ! 1) (serie_prefix @ ''1'') = Some Undefined \<and>
   (prepareChartData ex_short ! 1) (serie_prefix @ ''2'') = Some (Num 6) \<and>
   (prepareChartData ex_short ! 0) (serie_prefix @ ''1'') = Some (Num 1) \<and>
   (prepareChartData ex_proto ! 0) ''__proto__'' = None \<and>
   (prepareChartData ex_proto ! 0) ''B'' = Some (Num 2)"
proof -
  have l: "labels ex_short = Some [StrLabel ''a'', StrLabel ''b'']"
    and v: "values' ex_short = Some (Nested [[1], [5, 6]])"
    and e: "extra_field ex_short legendas = None"
    and ty: "type ex_short = ''line''"
    by (simp_all add: extra_field_def ex_short_def)
  have ne: "[[1], [5, 6 :: real]] \<noteq> []" by simp
  have n: "seriesName ex_short 0 = serie_prefix @ ''1''"
    "seriesName ex_short (Suc 0) = serie_prefix @ ''2''"
    by (simp_all add: seriesName_def e string_of_nat.simps digit_char_def)
  have last0: "seriesName ex_short 0 \<noteq> ''__proto__'' \<and>
      (\<forall>s'. 0 < s' \<and> s' < length [[1], [5, 6 :: real]] \<longrightarrow>
        seriesName ex_short s' \<noteq> seriesName ex_short 0)"
  proof (intro conjI allI impI)
    fix s' :: nat
    assume "0 < s' \<and> s' < length [[1], [5, 6 :: real]]"
    then have "s' = Suc 0" by simp
    then show "seriesName ex_short s' \<noteq> seriesName ex_short 0"
      by (simp add: n)
  qed (simp add: n serie_prefix_def)
  have last1: "seriesName ex_short (Suc 0) \<noteq> ''__proto__'' \<and>
      (\<forall>s'. Suc 0 < s' \<and> s' < length [[1], [5, 6 :: real]] \<longrightarrow>
        seriesName ex_short s' \<noteq> seriesName ex_short (Suc 0))"
    by (auto simp: n serie_prefix_def)
  note t = short_series_padded [OF l v ne]
  from t have len: "length (prepareChartData ex_short) = 2" by simp
  from t ty have vis: "\<exists>c. Visualization (Some ex_short) = Inr (Some (Card (heading ex_short) c)) \<and>
        chart_data c = prepareChartData ex_short \<and>
        map dataKey (marks c) = [serie_prefix @ ''1'', serie_prefix @ ''2'']"
    by (auto simp: n upt_rec)
  note f = t [THEN conjunct2, THEN conjunct2, rule_format]
  from f [of "Suc 0" 0, THEN conjunct2] last0
  have a: "(prepareChartData ex_short ! 1) (serie_prefix @ ''1'') = Some Undefined"
    by (simp add: n)
  from f [of "Suc 0" "Suc 0", THEN conjunct2] last1
  have b: "(prepareChartData ex_short ! 1) (serie_prefix @ ''2'') = Some (Num 6)"
    by (simp add: n)
  from f [of 0 0, THEN conjunct2] last0
  have c: "(prepareChartData ex_short ! 0) (serie_prefix @ ''1'') = Some (Num 1)"
    by (simp add: n)
  have pl: "labels ex_proto = Some [StrLabel ''a'']"
    and pv: "values' ex_proto = Some (Nested [[1], [2]])"
    and pe: "extra_field ex_proto legendas = Some [''__proto__'', ''B'']"
    by (simp_all add: extra_field_def ex_proto_def no_extra_def)
  have pne: "[[1], [2 :: real]] \<noteq> []" by simp
  have pn: "seriesName ex_proto 0 = ''__proto__''" "seriesName ex_proto (Suc 0) = ''B''"
    by (simp_all add: seriesName_def pe at_index_def)
  have plast: "seriesName ex_proto (Suc 0) \<noteq> ''__proto__'' \<and>
      (\<forall>s'. Suc 0 < s' \<and> s' < length [[1], [2 :: real]] \<longrightarrow>
        seriesName ex_proto s' \<noteq> seriesName ex_proto (Suc 0))"
    by (auto simp: pn)
  note g = short_series_padded [OF pl pv pne, THEN conjunct2, THEN conjunct2, rule_format]
  from g [of 0 0, THEN conjunct1] pn
  have p0: "(prepareChartData ex_proto ! 0) ''__proto__'' = None"
    by simp
  from g [of 0 "Suc 0", THEN conjunct2] plast
  have p1: "(prepareChartData ex_proto ! 0) ''B'' = Some (Num 2)"
    by (simp add: pn)
  from len vis a b c p0 p1 show ?thesis by blast
qed

subsection \<open>Missing values\<close>

text \<open>
  Claim C10 at \<^verbatim>\<open>{type: "bar", labels: ["a"]}\<close>: \<^verbatim>\<open>prepareChartData\<close> returns the empty list
  for the missing \<^verbatim>\<open>values\<close>, but \<^verbatim>\<open>renderChart\<close> then reads \<^verbatim>\<open>data.values[0]\<close> and the
  component throws a \<^verbatim>\<open>TypeError\<close>, where the claim says it never throws.  (It returns
  \<^verbatim>\<open>null\<close> for a missing \<^verbatim>\<open>data\<close>, and throws in no other case: see \<open>Visualization_null\<close>
  and \<open>Visualization_throws_iff\<close>.)
\<close>

theorem missing_values_throws:
  "prepareChartData ex_no_values = [] \<and> Visualization (Some ex_no_values) = Inl TypeError"
  by (simp add: Visualization_def renderChart_def prepareChartData_def ex_no_values_def)

end
